theory Spec2Isabelle
  imports Main "HOL-Library.Word" "HOL-Library.AList" "HOL-Library.Code_Target_Nat"
begin

section \<open>The JavaScript runtime the bridge is written against\<close>

text \<open>
  The bridge (\<^verbatim>\<open>src/bridge/ipc.ts\<close>) moves newline-delimited JSON texts over a byte
  stream. Its own code is short; what it calls from the runtime is modelled first:
  byte buffers and their UTF-8 decoding, strings with \<^verbatim>\<open>split\<close> and \<^verbatim>\<open>trim\<close>,
  JavaScript values with property access and truthiness, and \<^verbatim>\<open>JSON.stringify\<close>.

  A JavaScript string is modelled as the list of its Unicode code points. (The runtime
  stores a code point above U+FFFF as two UTF-16 units; neither \<^verbatim>\<open>split('\n')\<close> nor
  \<^verbatim>\<open>trim()\<close> can tell the difference.) A \<^verbatim>\<open>Buffer\<close> is a list of 8-bit words.
\<close>

type_synonym byte = "8 word"
type_synonym jstext = "nat list"

definition ascii :: "string \<Rightarrow> jstext" where
  "ascii s = map of_char s"

definition replacement :: nat where
  "replacement = 65533"

subsection \<open>UTF-8\<close>

text \<open>
  \<^verbatim>\<open>socket.write(str)\<close> sends the UTF-8 encoding of the string. A surrogate code point
  that stands alone is sent as U+FFFD.
\<close>

definition is_surrogate :: "nat \<Rightarrow> bool" where
  "is_surrogate c \<longleftrightarrow> 55296 \<le> c \<and> c \<le> 57343"

definition utf8_encode_cp :: "nat \<Rightarrow> nat list" where
  "utf8_encode_cp c =
     (if c < 128 then [c]
      else if c < 2048 then [192 + c div 64, 128 + c mod 64]
      else if is_surrogate c then [239, 191, 189]
      else if c < 65536 then [224 + c div 4096, 128 + (c div 64) mod 64, 128 + c mod 64]
      else if c < 1114112 then
        [240 + c div 262144, 128 + (c div 4096) mod 64, 128 + (c div 64) mod 64, 128 + c mod 64]
      else [239, 191, 189])"

definition utf8_encode :: "jstext \<Rightarrow> byte list" where
  "utf8_encode s = map of_nat (concat (map utf8_encode_cp s))"

text \<open>
  \<^verbatim>\<open>data.toString()\<close> on a \<^verbatim>\<open>Buffer\<close> decodes the bytes of that one buffer as UTF-8.
  Every maximal ill-formed or truncated part becomes one U+FFFD, as the Encoding
  Standard's UTF-8 decoder does: the second byte of a three- or four-byte sequence has
  a range that depends on the first (\<open>lower2\<close>, \<open>upper2\<close>), and a byte that does not
  continue the sequence is read again as the start of the next one.
\<close>

definition continuation :: "nat \<Rightarrow> bool" where
  "continuation b \<longleftrightarrow> 128 \<le> b \<and> b \<le> 191"

definition lower2 :: "nat \<Rightarrow> nat" where
  "lower2 b = (if b = 224 then 160 else if b = 240 then 144 else 128)"

definition upper2 :: "nat \<Rightarrow> nat" where
  "upper2 b = (if b = 237 then 159 else if b = 244 then 143 else 191)"

fun utf8_decode :: "nat list \<Rightarrow> jstext" where
  "utf8_decode [] = []"
| "utf8_decode (b # bs) =
     (if b < 128 then b # utf8_decode bs
      else if 194 \<le> b \<and> b \<le> 223 then
        (case bs of
           [] \<Rightarrow> [replacement]
         | c # cs \<Rightarrow>
             if continuation c then ((b - 192) * 64 + (c - 128)) # utf8_decode cs
             else replacement # utf8_decode bs)
      else if 224 \<le> b \<and> b \<le> 239 then
        (case bs of
           [] \<Rightarrow> [replacement]
         | c # cs \<Rightarrow>
             if lower2 b \<le> c \<and> c \<le> upper2 b then
               (case cs of
                  [] \<Rightarrow> [replacement]
                | d # ds \<Rightarrow>
                    if continuation d
                    then ((b - 224) * 4096 + (c - 128) * 64 + (d - 128)) # utf8_decode ds
                    else replacement # utf8_decode cs)
             else replacement # utf8_decode bs)
      else if 240 \<le> b \<and> b \<le> 244 then
        (case bs of
           [] \<Rightarrow> [replacement]
         | c # cs \<Rightarrow>
             if lower2 b \<le> c \<and> c \<le> upper2 b then
               (case cs of
                  [] \<Rightarrow> [replacement]
                | d # ds \<Rightarrow>
                    if continuation d then
                      (case ds of
                         [] \<Rightarrow> [replacement]
                       | e # es \<Rightarrow>
                           if continuation e
                           then ((b - 240) * 262144 + (c - 128) * 4096 + (d - 128) * 64
                                  + (e - 128)) # utf8_decode es
                           else replacement # utf8_decode ds)
                    else replacement # utf8_decode cs)
             else replacement # utf8_decode bs)
      else replacement # utf8_decode bs)"

definition toString :: "byte list \<Rightarrow> jstext" where
  "toString data = utf8_decode (map unat data)"

subsection \<open>Strings\<close>

text \<open>\<^verbatim>\<open>str.split('\n')\<close>: the segments between line feeds; never an empty array.\<close>

definition newline :: nat where
  "newline = 10"

fun split :: "jstext \<Rightarrow> jstext list" where
  "split [] = [[]]"
| "split (c # cs) =
     (if c = newline then [] # split cs
      else (case split cs of [] \<Rightarrow> [[c]] | l # ls \<Rightarrow> (c # l) # ls))"

text \<open>
  \<^verbatim>\<open>str.trim()\<close> strips white space and line terminators from both ends, so
  \<^verbatim>\<open>!line.trim()\<close> holds exactly for a line that has nothing else.
\<close>

definition js_whitespace :: "nat \<Rightarrow> bool" where
  "js_whitespace c \<longleftrightarrow>
     c \<in> set [9, 10, 11, 12, 13, 32, 160, 5760, 8232, 8233, 8239, 8287, 12288, 65279]
     \<or> (8192 \<le> c \<and> c \<le> 8202)"

definition trim :: "jstext \<Rightarrow> jstext" where
  "trim s = rev (dropWhile js_whitespace (rev (dropWhile js_whitespace s)))"

text \<open>The decimal digits of a natural number.\<close>

fun digits :: "nat \<Rightarrow> jstext" where
  "digits n = (if n < 10 then [48 + n] else digits (n div 10) @ [48 + n mod 10])"

declare digits.simps [simp del]

definition join :: "jstext \<Rightarrow> jstext list \<Rightarrow> jstext" where
  "join sep parts = (case parts of [] \<Rightarrow> [] | p # ps \<Rightarrow> p @ concat (map (\<lambda>q. sep @ q) ps))"

subsection \<open>Values\<close>

text \<open>
  The values the bridge handles are typed \<^verbatim>\<open>unknown\<close>: whatever \<^verbatim>\<open>JSON.parse\<close>
  returns, and whatever a request handler resolves with. Of the numbers the model has
  the 32-bit integers: a double holds each of them exactly and prints it digit by digit.
  A \<^verbatim>\<open>BigInt\<close> is an integer of any size, and \<^verbatim>\<open>JSON.stringify\<close> refuses it. An
  object lists its members in the order the runtime enumerates them.
\<close>

type_synonym number = "32 word"

datatype jsval =
    Undefined
  | Null
  | Bool bool
  | Num number
  | BigInt int
  | Str jstext
  | Arr "jsval list"
  | Obj "(jstext \<times> jsval) list"

text \<open>
  \<^verbatim>\<open>v.name\<close>: a \<^verbatim>\<open>TypeError\<close> (here \<open>None\<close>) on \<^verbatim>\<open>null\<close> and \<^verbatim>\<open>undefined\<close>,
  the member of an object, and \<^verbatim>\<open>undefined\<close> where there is none. None of the names
  the bridge reads (\<^verbatim>\<open>id method params result error message\<close>) is inherited from a
  prototype.
\<close>

fun get_prop :: "jsval \<Rightarrow> jstext \<Rightarrow> jsval option" where
  "get_prop Undefined name = None"
| "get_prop Null name = None"
| "get_prop (Obj members) name =
     Some (case map_of members name of None \<Rightarrow> Undefined | Some v \<Rightarrow> v)"
| "get_prop v name = Some Undefined"

fun truthy :: "jsval \<Rightarrow> bool" where
  "truthy Undefined = False"
| "truthy Null = False"
| "truthy (Bool b) = b"
| "truthy (Num n) = (n \<noteq> 0)"
| "truthy (BigInt n) = (n \<noteq> 0)"
| "truthy (Str s) = (s \<noteq> [])"
| "truthy (Arr xs) = True"
| "truthy (Obj members) = True"

text \<open>
  \<^verbatim>\<open>String(b)\<close> for a \<^verbatim>\<open>BigInt\<close>: every digit, with the sign. \<^verbatim>\<open>String(n)\<close> for a
  number of the model, a 32-bit integer: the same digits. (For a double outside the
  model \<^verbatim>\<open>String\<close> rounds the digits and from \<open>10\<^sup>2\<^sup>1\<close> writes an exponent.)
\<close>

definition BigInt_toString :: "int \<Rightarrow> jstext" where
  "BigInt_toString i = (if i < 0 then 45 # digits (nat (- i)) else digits (nat i))"

definition show_number :: "number \<Rightarrow> jstext" where
  "show_number n = BigInt_toString (sint n)"

text \<open>\<^verbatim>\<open>String(v)\<close>, which is also what a template literal \<^verbatim>\<open>`${v}`\<close> inserts.\<close>

fun js_String :: "jsval \<Rightarrow> jstext" where
  "js_String Undefined = ascii ''undefined''"
| "js_String Null = ascii ''null''"
| "js_String (Bool b) = (if b then ascii ''true'' else ascii ''false'')"
| "js_String (Num n) = show_number n"
| "js_String (BigInt n) = BigInt_toString n"
| "js_String (Str s) = s"
| "js_String (Arr xs) =
     join (ascii '','')
       (map (\<lambda>x. if x = Undefined \<or> x = Null then [] else js_String x) xs)"
| "js_String (Obj members) = ascii ''[object Object]''"

subsection \<open>JSON.stringify\<close>

definition hex_digit :: "nat \<Rightarrow> nat" where
  "hex_digit d = (if d < 10 then 48 + d else 87 + d)"

definition unicode_escape :: "nat \<Rightarrow> jstext" where
  "unicode_escape c =
     [92, 117, hex_digit (c div 4096), hex_digit (c div 256 mod 16),
      hex_digit (c div 16 mod 16), hex_digit (c mod 16)]"

definition quote_char :: "nat \<Rightarrow> jstext" where
  "quote_char c =
     (if c = 8 then [92, 98]
      else if c = 9 then [92, 116]
      else if c = 10 then [92, 110]
      else if c = 12 then [92, 102]
      else if c = 13 then [92, 114]
      else if c = 34 then [92, 34]
      else if c = 92 then [92, 92]
      else if c < 32 \<or> is_surrogate c then unicode_escape c
      else [c])"

definition quote :: "jstext \<Rightarrow> jstext" where
  "quote s = [34] @ concat (map quote_char s) @ [34]"

text \<open>
  The serializer has three outcomes: it throws a \<^verbatim>\<open>TypeError\<close>, it gives nothing
  (for \<^verbatim>\<open>undefined\<close>: the member is left out of an object and written \<^verbatim>\<open>null\<close> in
  an array), or it gives a text.
\<close>

datatype serialized = Throws | Absent | Text jstext

fun the_text :: "serialized \<Rightarrow> jstext" where
  "the_text (Text t) = t"
| "the_text other = ascii ''null''"

fun member_text :: "jstext \<times> serialized \<Rightarrow> jstext list" where
  "member_text (k, Text t) = [quote k @ [58] @ t]"
| "member_text (k, other) = []"

fun SerializeJSONProperty :: "jsval \<Rightarrow> serialized" where
  "SerializeJSONProperty Undefined = Absent"
| "SerializeJSONProperty Null = Text (ascii ''null'')"
| "SerializeJSONProperty (Bool b) = Text (if b then ascii ''true'' else ascii ''false'')"
| "SerializeJSONProperty (Num n) = Text (show_number n)"
| "SerializeJSONProperty (BigInt n) = Throws"
| "SerializeJSONProperty (Str s) = Text (quote s)"
| "SerializeJSONProperty (Arr xs) =
     (let parts = map SerializeJSONProperty xs
      in if Throws \<in> set parts then Throws
         else Text ([91] @ join [44] (map the_text parts) @ [93]))"
| "SerializeJSONProperty (Obj members) =
     (let parts = map (\<lambda>m. (fst m, SerializeJSONProperty (snd m))) members
      in if Throws \<in> set (map snd parts) then Throws
         else Text ([123] @ join [44] (concat (map member_text parts)) @ [125]))"

text \<open>
  \<^verbatim>\<open>JSON.stringify(v)\<close> as the bridge uses it, in \<^verbatim>\<open>JSON.stringify(v) + '\n'\<close>:
  \<open>None\<close> when it throws. (The bridge only passes it object literals, for which it
  never returns \<^verbatim>\<open>undefined\<close>; concatenation would read that as the text
  \<^verbatim>\<open>undefined\<close>.)
\<close>

definition JSON_stringify :: "jsval \<Rightarrow> jstext option" where
  "JSON_stringify v =
     (case SerializeJSONProperty v of
        Throws \<Rightarrow> None
      | Absent \<Rightarrow> Some (ascii ''undefined'')
      | Text t \<Rightarrow> Some t)"

section \<open>The bridge: \<^verbatim>\<open>src/bridge/ipc.ts\<close>\<close>

text \<open>
  What the code does to the outside is recorded as a list of effects, in order. A
  promise, with its continuation \<^verbatim>\<open>{resolve, reject}\<close>, is named by a number.
\<close>

datatype exn = Error jstext | SyntaxError | TypeError

type_synonym promise = nat

datatype effect =
    Invoke nat jsval jsval
  | SocketWrite jstext
  | ConsoleError jstext exn
  | Resolve promise jsval
  | Reject promise exn
  | CreateConnection jstext
  | RejectConnect
  | Destroy

subsection \<open>Framing, common to both sides\<close>

text \<open>
  \<^verbatim>\<open>buffer += data.toString(); const lines = buffer.split('\n'); buffer = lines.pop() || '';\<close>
  gives the complete lines and the new buffer.
\<close>

definition receive :: "jstext \<Rightarrow> byte list \<Rightarrow> jstext list \<times> jstext" where
  "receive buf data =
     (let lines = split (buf @ toString data)
      in (butlast lines, if lines = [] then [] else last lines))"

text \<open>\<^verbatim>\<open>socket.write(JSON.stringify(message) + '\n')\<close>: the bytes on the wire.\<close>

definition frame :: "jstext \<Rightarrow> jstext" where
  "frame s = s @ [newline]"

definition wire :: "jstext \<Rightarrow> byte list" where
  "wire s = utf8_encode s"

subsection \<open>IPCServer: one accepted connection\<close>

text \<open>
  A request handler is \<^verbatim>\<open>(method, params) => Promise<unknown>\<close>. Calling it is the
  effect \<open>Invoke c method params\<close>, where \<open>c\<close> numbers the calls made on the
  connection; the promise it returns is settled later, by the event \<open>Settled c\<close>.
  A rejection carries an \<^verbatim>\<open>Error\<close> with its message, or any other thrown value.
\<close>

datatype thrown = ErrorObject jstext | Thrown jsval

datatype outcome = Resolved jsval | Rejected thrown

fun error_message :: "thrown \<Rightarrow> jstext" where
  "error_message (ErrorObject m) = m"
| "error_message (Thrown v) = js_String v"

definition success_response :: "jsval \<Rightarrow> jsval \<Rightarrow> jsval" where
  "success_response rid r = Obj [(ascii ''id'', rid), (ascii ''result'', r)]"

definition error_response :: "jsval \<Rightarrow> jstext \<Rightarrow> jsval" where
  "error_response rid msg =
     Obj [(ascii ''id'', rid), (ascii ''error'', Obj [(ascii ''message'', Str msg)])]"

text \<open>
  The \<^verbatim>\<open>data\<close> callback is \<^verbatim>\<open>async\<close>: it runs until its \<^verbatim>\<open>await\<close> of the handler's
  promise and is resumed when that promise settles. A suspended run of the callback
  is a \<open>task\<close>: the call it waits for, the request it parsed, and the lines of its
  chunk that it has not looked at yet.
\<close>

record task =
  awaiting :: nat
  request :: jsval
  remaining :: "jstext list"

record connection =
  buffer :: jstext
  tasks :: "task list"
  invoked :: nat

definition accepted :: connection where
  "accepted = \<lparr>buffer = [], tasks = [], invoked = 0\<rparr>"

definition parse_failed :: jstext where
  "parse_failed = ascii ''Failed to parse IPC message:''"

text \<open>
  The body of \<^verbatim>\<open>for (const line of lines)\<close>, up to the first \<^verbatim>\<open>await\<close>. \<open>P\<close> is
  \<^verbatim>\<open>JSON.parse\<close>, \<open>None\<close> where it throws a \<^verbatim>\<open>SyntaxError\<close>. Reading
  \<^verbatim>\<open>request.method\<close> of \<^verbatim>\<open>null\<close> throws inside the inner \<^verbatim>\<open>try\<close>, whose \<^verbatim>\<open>catch\<close>
  reads \<^verbatim>\<open>request.id\<close> and throws again, into the outer \<^verbatim>\<open>catch\<close>.
\<close>

fun run_lines ::
  "(jstext \<Rightarrow> jsval option) \<Rightarrow> nat \<Rightarrow> jstext list \<Rightarrow> effect list \<times> task option" where
  "run_lines P c [] = ([], None)"
| "run_lines P c (line # rest) =
     (if trim line = [] then run_lines P c rest
      else
        (case P line of
           None \<Rightarrow>
             (ConsoleError parse_failed SyntaxError # fst (run_lines P c rest),
              snd (run_lines P c rest))
         | Some req \<Rightarrow>
             (case (get_prop req (ascii ''method''), get_prop req (ascii ''params'')) of
                (Some m, Some p) \<Rightarrow>
                  ([Invoke c m p], Some \<lparr>awaiting = c, request = req, remaining = rest\<rparr>)
              | _ \<Rightarrow>
                  (ConsoleError parse_failed TypeError # fst (run_lines P c rest),
                   snd (run_lines P c rest)))))"

text \<open>
  After the \<^verbatim>\<open>await\<close>: the response object is built from the outcome, serialized and
  written. A throw of \<^verbatim>\<open>JSON.stringify\<close> lands in the outer \<^verbatim>\<open>catch\<close>.
\<close>

definition respond :: "jsval \<Rightarrow> outcome \<Rightarrow> effect" where
  "respond req out =
     (case get_prop req (ascii ''id'') of
        None \<Rightarrow> ConsoleError parse_failed TypeError
      | Some rid \<Rightarrow>
          (case JSON_stringify
                  (case out of
                     Resolved r \<Rightarrow> success_response rid r
                   | Rejected e \<Rightarrow> error_response rid (error_message e)) of
             None \<Rightarrow> ConsoleError parse_failed TypeError
           | Some s \<Rightarrow> SocketWrite (frame s)))"

datatype event = Data "byte list" | Settled nat outcome

definition suspend :: "connection \<Rightarrow> task list \<Rightarrow> task option \<Rightarrow> connection" where
  "suspend s ts t =
     (case t of
        None \<Rightarrow> s\<lparr>tasks := ts\<rparr>
      | Some t' \<Rightarrow> s\<lparr>tasks := ts @ [t'], invoked := Suc (invoked s)\<rparr>)"

fun step ::
  "(jstext \<Rightarrow> jsval option) \<Rightarrow> connection \<Rightarrow> event \<Rightarrow> connection \<times> effect list" where
  "step P s (Data d) =
     (let (lines, buf) = receive (buffer s) d;
          (effects, t) = run_lines P (invoked s) lines
      in (suspend (s\<lparr>buffer := buf\<rparr>) (tasks s) t, effects))"
| "step P s (Settled c out) =
     (case find (\<lambda>t. awaiting t = c) (tasks s) of
        None \<Rightarrow> (s, [])
      | Some t \<Rightarrow>
          (let (effects, t') = run_lines P (invoked s) (remaining t)
           in (suspend s (filter (\<lambda>t. awaiting t \<noteq> c) (tasks s)) t',
               respond (request t) out # effects)))"

fun run ::
  "(jstext \<Rightarrow> jsval option) \<Rightarrow> connection \<Rightarrow> event list \<Rightarrow> connection \<times> effect list" where
  "run P s [] = (s, [])"
| "run P s (e # es) =
     (let (s', out) = step P s e; (s'', out') = run P s' es in (s'', out @ out'))"

subsection \<open>IPCClient\<close>

record IPCClient =
  socket :: "jstext option"
  socketPath :: jstext
  pendingRequests :: "(jstext \<times> promise) list"
  requestId :: nat
  this_buffer :: jstext

text \<open>
  \<^verbatim>\<open>new IPCClient(socketPath)\<close>; \<open>default_path\<close> is what \<^verbatim>\<open>getDefaultSocketPath()\<close>
  returns on the platform.
\<close>

definition new_IPCClient :: "jstext \<Rightarrow> jstext \<Rightarrow> IPCClient" where
  "new_IPCClient default_path path =
     \<lparr>socket = None, socketPath = (if path = [] then default_path else path),
      pendingRequests = [], requestId = 0, this_buffer = []\<rparr>"

definition connect :: "IPCClient \<Rightarrow> IPCClient \<times> effect list" where
  "connect this = (this\<lparr>socket := Some (socketPath this)\<rparr>, [CreateConnection (socketPath this)])"

text \<open>
  \<^verbatim>\<open>this.pendingRequests.get(response.id)\<close>: the keys of the map are strings, so only a
  string finds an entry.
\<close>

fun pending_get :: "(jstext \<times> promise) list \<Rightarrow> jsval \<Rightarrow> promise option" where
  "pending_get table (Str i) = map_of table i"
| "pending_get table v = None"

fun pending_delete :: "jsval \<Rightarrow> (jstext \<times> promise) list \<Rightarrow> (jstext \<times> promise) list" where
  "pending_delete (Str i) table = AList.delete i table"
| "pending_delete v table = table"

text \<open>
  The interface \<^verbatim>\<open>IPCResponse\<close>, \<^verbatim>\<open>{ id: string; result?: unknown; error?: { message:
  string; code?: number } }\<close>, and the value that has these members.
\<close>

record response_error =
  message :: jstext
  code :: "number option"

record IPCResponse =
  id' :: jstext
  result :: "jsval option"
  error :: "response_error option"

definition optional :: "jstext \<Rightarrow> jsval option \<Rightarrow> (jstext \<times> jsval) list" where
  "optional name v = (case v of None \<Rightarrow> [] | Some x \<Rightarrow> [(name, x)])"

definition error_value :: "response_error \<Rightarrow> jsval" where
  "error_value e =
     Obj ((ascii ''message'', Str (message e)) # optional (ascii ''code'') (map_option Num (code e)))"

definition response_value :: "IPCResponse \<Rightarrow> jsval" where
  "response_value r =
     Obj ((ascii ''id'', Str (id' r)) # optional (ascii ''result'') (result r)
            @ optional (ascii ''error'') (map_option error_value (error r)))"

text \<open>\<^verbatim>\<open>new Error(m).message\<close>: empty for \<^verbatim>\<open>undefined\<close>, else \<^verbatim>\<open>String(m)\<close>.\<close>

definition new_Error :: "jsval \<Rightarrow> exn" where
  "new_Error m = Error (if m = Undefined then [] else js_String m)"

definition response_failed :: jstext where
  "response_failed = ascii ''Failed to parse IPC response:''"

text \<open>The body of the caller's \<^verbatim>\<open>for (const line of lines)\<close>.\<close>

definition on_line ::
  "(jstext \<Rightarrow> jsval option) \<Rightarrow> IPCClient \<Rightarrow> jstext \<Rightarrow> IPCClient \<times> effect list" where
  "on_line P this line =
     (if trim line = [] then (this, [])
      else
        (case P line of
           None \<Rightarrow> (this, [ConsoleError response_failed SyntaxError])
         | Some response \<Rightarrow>
             (case get_prop response (ascii ''id'') of
                None \<Rightarrow> (this, [ConsoleError response_failed TypeError])
              | Some rid \<Rightarrow>
                  (case pending_get (pendingRequests this) rid of
                     None \<Rightarrow> (this, [])
                   | Some pending \<Rightarrow>
                       (this\<lparr>pendingRequests := pending_delete rid (pendingRequests this)\<rparr>,
                        (case get_prop response (ascii ''error'') of
                           None \<Rightarrow> [ConsoleError response_failed TypeError]
                         | Some err \<Rightarrow>
                             if truthy err then
                               (case get_prop err (ascii ''message'') of
                                  None \<Rightarrow> [ConsoleError response_failed TypeError]
                                | Some m \<Rightarrow> [Reject pending (new_Error m)])
                             else
                               (case get_prop response (ascii ''result'') of
                                  None \<Rightarrow> [ConsoleError response_failed TypeError]
                                | Some r \<Rightarrow> [Resolve pending r])))))))"

fun on_lines ::
  "(jstext \<Rightarrow> jsval option) \<Rightarrow> IPCClient \<Rightarrow> jstext list \<Rightarrow> IPCClient \<times> effect list" where
  "on_lines P this [] = (this, [])"
| "on_lines P this (line # rest) =
     (let (this', out) = on_line P this line; (this'', out') = on_lines P this' rest
      in (this'', out @ out'))"

definition on_data ::
  "(jstext \<Rightarrow> jsval option) \<Rightarrow> IPCClient \<Rightarrow> byte list \<Rightarrow> IPCClient \<times> effect list" where
  "on_data P this data =
     (let (lines, buf) = receive (this_buffer this) data
      in on_lines P (this\<lparr>this_buffer := buf\<rparr>) lines)"

text \<open>The \<^verbatim>\<open>error\<close> listener rejects the promise of \<^verbatim>\<open>connect()\<close> and nothing else.\<close>

definition on_error :: "IPCClient \<Rightarrow> IPCClient \<times> effect list" where
  "on_error this = (this, [RejectConnect])"

text \<open>
  The \<^verbatim>\<open>close\<close> listener walks the map and deletes the entry it is at; a \<^verbatim>\<open>Map\<close>
  iterator still reaches every other entry.
\<close>

definition connection_closed :: exn where
  "connection_closed = Error (ascii ''Connection closed'')"

fun reject_all ::
  "(jstext \<times> promise) list \<Rightarrow> (jstext \<times> promise) list \<Rightarrow> (jstext \<times> promise) list \<times> effect list" where
  "reject_all [] table = (table, [])"
| "reject_all ((i, pending) # entries) table =
     (let (table', out) = reject_all entries (AList.delete i table)
      in (table', Reject pending connection_closed # out))"

definition on_close :: "IPCClient \<Rightarrow> IPCClient \<times> effect list" where
  "on_close this =
     (let (table, out) = reject_all (pendingRequests this) (pendingRequests this)
      in (this\<lparr>pendingRequests := table\<rparr>, out))"

text \<open>
  How a call ends for its caller: it throws, or it returns a promise, which is already
  rejected or still pending. A method declared \<^verbatim>\<open>async\<close> never throws to its caller:
  what its body throws rejects the promise it returns.
\<close>

datatype call = Threw exn | ReturnedRejected exn | ReturnedPending promise

text \<open>
  \<^verbatim>\<open>++this.requestId\<close> on a double: exact up to \<open>2\<^sup>5\<^sup>3\<close>, where adding one changes
  nothing any more. The counter starts at 0 and only this statement changes it, so it
  stays in the range where \<^verbatim>\<open>String\<close> prints every digit.
\<close>

definition increment :: "nat \<Rightarrow> nat" where
  "increment n = (if n < 9007199254740992 then Suc n else n)"

text \<open>
  \<^verbatim>\<open>async request(method, params)\<close>; \<open>k\<close> is the continuation of the promise that
  \<^verbatim>\<open>new Promise\<close> creates, which the promise returned follows. A throw of
  \<^verbatim>\<open>JSON.stringify\<close> inside the promise's executor rejects that promise, after the
  entry has been stored.
\<close>

definition not_connected :: exn where
  "not_connected = Error (ascii ''Not connected'')"

definition request_object :: "jstext \<Rightarrow> jstext \<Rightarrow> jsval \<Rightarrow> jsval" where
  "request_object i method params =
     Obj [(ascii ''id'', Str i), (ascii ''method'', Str method), (ascii ''params'', params)]"

definition request_call ::
  "IPCClient \<Rightarrow> promise \<Rightarrow> jstext \<Rightarrow> jsval \<Rightarrow> IPCClient \<times> call \<times> effect list" where
  "request_call this k method params =
     (if socket this = None then (this, ReturnedRejected not_connected, [])
      else
        (let i = digits (increment (requestId this));
             this' = this\<lparr>requestId := increment (requestId this),
                          pendingRequests := AList.update i k (pendingRequests this)\<rparr>
         in (this', ReturnedPending k,
             (case JSON_stringify (request_object i method params) of
                None \<Rightarrow> [Reject k TypeError]
              | Some s \<Rightarrow> [SocketWrite (frame s)]))))"

definition disconnect :: "IPCClient \<Rightarrow> IPCClient \<times> effect list" where
  "disconnect this =
     (if socket this = None then (this, []) else (this\<lparr>socket := None\<rparr>, [Destroy]))"

subsection \<open>A stream of chunks\<close>

text \<open>
  Both sides run the same three framing statements on every \<^verbatim>\<open>data\<close> event, each on
  the buffer the event before left. \<open>decode_chunks\<close> is that succession: the lines
  handed to \<^verbatim>\<open>JSON.parse\<close>, in order, and the buffer at the end.
\<close>

fun decode_chunks :: "jstext \<Rightarrow> byte list list \<Rightarrow> jstext list \<times> jstext" where
  "decode_chunks buf [] = ([], buf)"
| "decode_chunks buf (d # ds) =
     (let (lines, buf') = receive buf d; (more, final) = decode_chunks buf' ds
      in (lines @ more, final))"

text \<open>
  \<^verbatim>\<open>JSON.parse\<close> is a parameter of the model. Where a concrete run is evaluated it is
  \<open>parse_among vs\<close>: the inverse of \<^verbatim>\<open>JSON.stringify\<close> on the values \<open>vs\<close>, and a
  \<^verbatim>\<open>SyntaxError\<close> on every other text.
\<close>

definition parse_among :: "jsval list \<Rightarrow> jstext \<Rightarrow> jsval option" where
  "parse_among vs s = find (\<lambda>v. JSON_stringify v = Some s) vs"

section \<open>The capability host: \<^verbatim>\<open>src/extension.ts\<close>\<close>

text \<open>
  The settings read through \<^verbatim>\<open>vscode.workspace.getConfiguration('vscode-api-mcp')\<close>,
  and what the operating system answers: the platform, the default socket path, and
  the error of a \<^verbatim>\<open>listen\<close> that fails.
\<close>

record configuration =
  logLevel :: jstext
  socketPath_setting :: jstext
  httpPort :: number

record environment =
  win32 :: bool
  getDefaultSocketPath :: jstext
  listen_error :: "jstext \<Rightarrow> exn option"
  mcp_connect_error :: "exn option"
  http_listen_error :: "number \<Rightarrow> exn option"

datatype host_effect =
    UnlinkSync jstext
  | CreateServer
  | Listen jstext
  | ServerClose
  | NewTransport
  | HttpCreateServer
  | McpConnect
  | HttpListen number
  | HttpClose

text \<open>
  A \<^verbatim>\<open>net.Server\<close> or \<^verbatim>\<open>http.Server\<close> object listens or does not. The field of the
  class that holds it is \<^verbatim>\<open>null\<close> (\<open>None\<close>) or the object.
\<close>

record net_Server =
  listening :: bool

record IPCServer =
  server :: "net_Server option"
  server_socketPath :: jstext

record HttpMcpServer =
  http_server :: "net_Server option"
  transport :: bool
  port :: number

record extension =
  ipcServer :: "IPCServer option"
  httpMcpServer :: "HttpMcpServer option"
  outputChannel :: "jstext list"

text \<open>A server is running when the module holds its object and that object listens.\<close>

definition ipc_running :: "extension \<Rightarrow> bool" where
  "ipc_running ext =
     (case ipcServer ext of
        None \<Rightarrow> False
      | Some this \<Rightarrow> (case server this of None \<Rightarrow> False | Some s \<Rightarrow> listening s))"

definition http_running :: "extension \<Rightarrow> bool" where
  "http_running ext =
     (case httpMcpServer ext of
        None \<Rightarrow> False
      | Some this \<Rightarrow> (case http_server this of None \<Rightarrow> False | Some s \<Rightarrow> listening s))"

text \<open>
  \<^verbatim>\<open>log(message, level)\<close>, with \<^verbatim>\<open>level\<close> one of four names. \<^verbatim>\<open>indexOf\<close> is \<open>-1\<close>
  for a configured level that is none of them, and then everything is logged.
\<close>

datatype log_level = Debug | Info | Warn | Err

fun level_name :: "log_level \<Rightarrow> jstext" where
  "level_name Debug = ascii ''debug''"
| "level_name Info = ascii ''info''"
| "level_name Warn = ascii ''warn''"
| "level_name Err = ascii ''error''"

definition levels :: "jstext list" where
  "levels = map level_name [Debug, Info, Warn, Err]"

fun indexOf :: "jstext list \<Rightarrow> jstext \<Rightarrow> int" where
  "indexOf [] x = - 1"
| "indexOf (y # ys) x =
     (if y = x then 0 else (if indexOf ys x < 0 then - 1 else indexOf ys x + 1))"

text \<open>\<^verbatim>\<open>toUpperCase()\<close> of a level's name, whose letters are Latin small letters.\<close>

definition toUpperCase :: "log_level \<Rightarrow> jstext" where
  "toUpperCase level = map (\<lambda>c. c - 32) (level_name level)"

definition log :: "configuration \<Rightarrow> jstext \<Rightarrow> log_level \<Rightarrow> extension \<Rightarrow> extension" where
  "log cfg msg level ext =
     (if indexOf levels (level_name level) \<ge> indexOf levels (logLevel cfg)
      then ext\<lparr>outputChannel :=
                 outputChannel ext @ [[91] @ toUpperCase level @ [93, 32] @ msg]\<rparr>
      else ext)"

text \<open>
  \<^verbatim>\<open>handleVSCodeRequest\<close>: a \<^verbatim>\<open>switch\<close> over thirteen method names, whose bodies call
  the editor (\<open>vscode m params\<close>, outside this model), and a \<^verbatim>\<open>default\<close> that throws.
\<close>

definition catalog :: "jstext list" where
  "catalog = map ascii
     [''executeCommand'', ''readFile'', ''writeFile'', ''getConfig'', ''setConfig'',
      ''getActiveEditor'', ''showMessage'', ''getWorkspaceFolders'', ''listFiles'',
      ''openFile'', ''getOpenEditors'', ''getDiagnostics'', ''setSelection'']"

definition unknown_method :: "jstext \<Rightarrow> jstext" where
  "unknown_method m = ascii ''Unknown method: '' @ m"

definition handleVSCodeRequest ::
  "configuration \<Rightarrow> (jstext \<Rightarrow> jsval \<Rightarrow> outcome) \<Rightarrow> extension \<Rightarrow> jsval \<Rightarrow> jsval
     \<Rightarrow> extension \<times> outcome" where
  "handleVSCodeRequest cfg vscode ext method params =
     (log cfg (ascii ''Handling request: '' @ js_String method) Debug ext,
      (case method of
         Str m \<Rightarrow>
           if m \<in> set catalog then vscode m params
           else Rejected (ErrorObject (unknown_method m))
       | other \<Rightarrow> Rejected (ErrorObject (unknown_method (js_String other)))))"

text \<open>
  \<^verbatim>\<open>IPCServer.start()\<close> and \<^verbatim>\<open>stop()\<close>, as far as the server object goes. The object
  is created and stored before \<^verbatim>\<open>listen\<close> is called; it listens if \<^verbatim>\<open>listen\<close> succeeds,
  and the promise of \<^verbatim>\<open>start()\<close> is rejected with the error if it fails. The \<^verbatim>\<open>start\<close>
  methods and functions are \<^verbatim>\<open>async\<close>: their result here is \<open>Inr ()\<close> for a promise
  that is fulfilled and \<open>Inl e\<close> for one that is rejected with \<open>e\<close>.
\<close>

definition IPCServer_start ::
  "environment \<Rightarrow> IPCServer \<Rightarrow> IPCServer \<times> (exn + unit) \<times> host_effect list" where
  "IPCServer_start env this =
     (this\<lparr>server := Some \<lparr>listening = (listen_error env (server_socketPath this) = None)\<rparr>\<rparr>,
      (case listen_error env (server_socketPath this) of
         Some e \<Rightarrow> Inl e
       | None \<Rightarrow> Inr ()),
      (if win32 env then [] else [UnlinkSync (server_socketPath this)])
        @ [CreateServer, Listen (server_socketPath this)])"

definition IPCServer_stop :: "IPCServer \<Rightarrow> IPCServer \<times> host_effect list" where
  "IPCServer_stop this =
     (case server this of
        None \<Rightarrow> (this, [])
      | Some s \<Rightarrow> (this\<lparr>server := None\<rparr>, [ServerClose]))"

definition HttpMcpServer_start ::
  "environment \<Rightarrow> HttpMcpServer \<Rightarrow> HttpMcpServer \<times> (exn + unit) \<times> host_effect list" where
  "HttpMcpServer_start env this =
     (case mcp_connect_error env of
        Some e \<Rightarrow>
          (this\<lparr>transport := True, http_server := Some \<lparr>listening = False\<rparr>\<rparr>,
           Inl e, [NewTransport, HttpCreateServer, McpConnect])
      | None \<Rightarrow>
          (this\<lparr>transport := True,
                http_server := Some \<lparr>listening = (http_listen_error env (port this) = None)\<rparr>\<rparr>,
           (case http_listen_error env (port this) of
              Some e \<Rightarrow> Inl e
            | None \<Rightarrow> Inr ()),
           [NewTransport, HttpCreateServer, McpConnect, HttpListen (port this)]))"

definition HttpMcpServer_stop :: "HttpMcpServer \<Rightarrow> HttpMcpServer \<times> host_effect list" where
  "HttpMcpServer_stop this =
     (this\<lparr>http_server := None, transport := False\<rparr>,
      (case http_server this of None \<Rightarrow> [] | Some s \<Rightarrow> [HttpClose]))"

text \<open>
  The module's \<^verbatim>\<open>startIPCServer\<close>, \<^verbatim>\<open>stopIPCServer\<close>, \<^verbatim>\<open>startHttpServer\<close> and
  \<^verbatim>\<open>stopHttpServer\<close>, on the module's variables. The variable is assigned before
  \<^verbatim>\<open>start()\<close> is awaited, so it stays set when \<^verbatim>\<open>start()\<close> rejects.
\<close>

definition startIPCServer ::
  "environment \<Rightarrow> configuration \<Rightarrow> extension \<Rightarrow> extension \<times> (exn + unit) \<times> host_effect list" where
  "startIPCServer env cfg ext =
     (if ipcServer ext \<noteq> None
      then (log cfg (ascii ''IPC server already running'') Info ext, Inr (), [])
      else
        (let path = (if socketPath_setting cfg \<noteq> [] then socketPath_setting cfg
                     else getDefaultSocketPath env);
             created = \<lparr>server = None,
                        server_socketPath = (if path \<noteq> [] then path else getDefaultSocketPath env)\<rparr>;
             (started, outcome, effects) = IPCServer_start env created;
             ext' = ext\<lparr>ipcServer := Some started\<rparr>
         in (case outcome of
               Inl e \<Rightarrow> (ext', Inl e, effects)
             | Inr u \<Rightarrow>
                 (log cfg (ascii ''IPC server started at '' @ server_socketPath started) Info ext',
                  Inr (), effects))))"

definition stopIPCServer ::
  "configuration \<Rightarrow> extension \<Rightarrow> extension \<times> host_effect list" where
  "stopIPCServer cfg ext =
     (case ipcServer ext of
        None \<Rightarrow> (ext, [])
      | Some this \<Rightarrow>
          (log cfg (ascii ''IPC server stopped'') Info (ext\<lparr>ipcServer := None\<rparr>),
           snd (IPCServer_stop this)))"

definition getUrl :: "HttpMcpServer \<Rightarrow> jstext" where
  "getUrl this = ascii ''http://127.0.0.1:'' @ show_number (port this) @ ascii ''/mcp''"

definition startHttpServer ::
  "environment \<Rightarrow> configuration \<Rightarrow> extension \<Rightarrow> extension \<times> (exn + unit) \<times> host_effect list" where
  "startHttpServer env cfg ext =
     (if httpMcpServer ext \<noteq> None
      then (log cfg (ascii ''HTTP MCP server already running'') Info ext, Inr (), [])
      else
        (let created = \<lparr>http_server = None, transport = False, port = httpPort cfg\<rparr>;
             (started, outcome, effects) = HttpMcpServer_start env created;
             ext' = ext\<lparr>httpMcpServer := Some started\<rparr>
         in (case outcome of
               Inl e \<Rightarrow> (ext', Inl e, effects)
             | Inr u \<Rightarrow>
                 (log cfg (ascii ''HTTP MCP server started at '' @ getUrl started) Info ext',
                  Inr (), effects))))"

definition stopHttpServer ::
  "configuration \<Rightarrow> extension \<Rightarrow> extension \<times> host_effect list" where
  "stopHttpServer cfg ext =
     (case httpMcpServer ext of
        None \<Rightarrow> (ext, [])
      | Some this \<Rightarrow>
          (log cfg (ascii ''HTTP MCP server stopped'') Info (ext\<lparr>httpMcpServer := None\<rparr>),
           snd (HttpMcpServer_stop this)))"

section \<open>Concrete messages\<close>

text \<open>
  The messages of the specification's two scenarios, and a few more, for the runs
  that are evaluated below.
\<close>

definition readFile_request :: jsval where
  "readFile_request =
     request_object (ascii ''1'') (ascii ''readFile'') (Obj [(ascii ''path'', Str (ascii ''a.txt''))])"

definition readFile_response :: jsval where
  "readFile_response = success_response (Str (ascii ''1'')) (Str (ascii ''hello''))"

definition unknownMethod_request :: jsval where
  "unknownMethod_request = request_object (ascii ''2'') (ascii ''unknownMethod'') (Obj [])"

definition unknownMethod_response :: jsval where
  "unknownMethod_response =
     error_response (Str (ascii ''2'')) (unknown_method (ascii ''unknownMethod''))"

definition executeCommand_request :: jsval where
  "executeCommand_request =
     request_object (ascii ''3'') (ascii ''executeCommand'')
       (Obj [(ascii ''command'', Str (ascii ''ext.count''))])"

definition getActiveEditor_request :: jsval where
  "getActiveEditor_request = request_object (ascii ''2'') (ascii ''getActiveEditor'') (Obj [])"

definition getActiveEditor_response :: jsval where
  "getActiveEditor_response = success_response (Str (ascii ''2'')) Null"

definition stray_response :: jsval where
  "stray_response = success_response (Str (ascii ''9'')) Null"

text \<open>
  A request for the method \<open>U+00E9\<close>, which the catalog does not have, the answer to
  it, and that answer with two U+FFFD for the letter.
\<close>

definition accented_request :: jsval where
  "accented_request = request_object (ascii ''2'') [233] (Obj [])"

definition accented_unknown :: jsval where
  "accented_unknown = error_response (Str (ascii ''2'')) (unknown_method [233])"

definition mangled_unknown :: jsval where
  "mangled_unknown =
     error_response (Str (ascii ''2'')) (unknown_method [replacement, replacement])"

definition text_of :: "jsval \<Rightarrow> jstext" where
  "text_of v = (case JSON_stringify v of None \<Rightarrow> [] | Some s \<Rightarrow> s)"

definition JSON_parse :: "jstext \<Rightarrow> jsval option" where
  "JSON_parse =
     parse_among
       [readFile_request, readFile_response, unknownMethod_request, unknownMethod_response,
        executeCommand_request, getActiveEditor_request, getActiveEditor_response,
        stray_response, accented_request, accented_unknown, mangled_unknown]"

definition garbage :: jstext where
  "garbage = ascii ''{oops''"

text \<open>
  A response whose result has a letter outside ASCII (U+00E9, two bytes in UTF-8), its
  text, and the message and text with two U+FFFD in the letter's place.
\<close>

definition accented :: jsval where
  "accented = success_response (Str (ascii ''1'')) (Str [233])"

definition accented_text :: jstext where
  "accented_text = ascii ''{\"id\":\"1\",\"result\":\"'' @ [233] @ ascii ''\"}''"

definition mangled :: jsval where
  "mangled = success_response (Str (ascii ''1'')) (Str [replacement, replacement])"

definition mangled_text :: jstext where
  "mangled_text = ascii ''{\"id\":\"1\",\"result\":\"'' @ [replacement, replacement] @ ascii ''\"}''"

text \<open>A segment of one space, as the chunk \<^verbatim>\<open>" \n"\<close> leaves it.\<close>

definition blank :: jstext where
  "blank = [32]"

text \<open>
  The settings as installed, an editor that answers every known method with
  \<^verbatim>\<open>null\<close>, the extension after activation with nothing started, and a machine on
  which port 6010 is taken.
\<close>

definition settings :: configuration where
  "settings = \<lparr>logLevel = ascii ''info'', socketPath_setting = [], httpPort = 6010\<rparr>"

definition idle_editor :: "jstext \<Rightarrow> jsval \<Rightarrow> outcome" where
  "idle_editor m params = Resolved Null"

definition activated :: extension where
  "activated = \<lparr>ipcServer = None, httpMcpServer = None, outputChannel = []\<rparr>"

definition address_in_use :: exn where
  "address_in_use = Error (ascii ''listen EADDRINUSE: address already in use 127.0.0.1:6010'')"

definition port_taken :: environment where
  "port_taken =
     \<lparr>win32 = False, getDefaultSocketPath = ascii ''/tmp/vscode-api-mcp.sock'',
      listen_error = (\<lambda>path. None), mcp_connect_error = None,
      http_listen_error = (\<lambda>p. Some address_in_use)\<rparr>"

text \<open>A caller that has connected and has one request, or two, in flight.\<close>

definition one_pending :: IPCClient where
  "one_pending =
     \<lparr>socket = Some (ascii ''/tmp/vscode-api-mcp.sock''),
      socketPath = ascii ''/tmp/vscode-api-mcp.sock'',
      pendingRequests = [(ascii ''1'', 7)], requestId = 1, this_buffer = []\<rparr>"

definition two_pending :: IPCClient where
  "two_pending =
     \<lparr>socket = Some (ascii ''/tmp/vscode-api-mcp.sock''),
      socketPath = ascii ''/tmp/vscode-api-mcp.sock'',
      pendingRequests = [(ascii ''1'', 7), (ascii ''2'', 8)], requestId = 2, this_buffer = []\<rparr>"

section \<open>Framing\<close>

text \<open>
  What \<^verbatim>\<open>split\<close> gives, and what the three framing statements do with it: the lines
  and the buffer left hold the text received, each delimiter taken out once; no line
  and no buffer contains a delimiter; and the lines do not depend on where the text
  was cut into chunks, once each chunk has been decoded.
\<close>

lemma split_nonempty: "split s \<noteq> []"
  by (induction s) (auto split: list.splits)

lemma split_conserve: "concat (map frame (butlast (split s))) @ last (split s) = s"
  by (induction s) (auto simp: frame_def split_nonempty split: list.splits)

lemma split_no_newline: "l \<in> set (split s) \<Longrightarrow> newline \<notin> set l"
  by (induction s arbitrary: l) (auto split: list.splits if_splits)

lemma split_append: "split (a @ b) = butlast (split a) @ split (last (split a) @ b)"
  by (induction a) (auto simp: split_nonempty split: list.splits)

lemma split_plain: "newline \<notin> set r \<Longrightarrow> split r = [r]"
  by (induction r) auto

lemma split_frame: "newline \<notin> set l \<Longrightarrow> split (frame l @ r) = l # split r"
  by (induction l) (auto simp: frame_def)

lemma split_frames:
  "\<forall>l \<in> set ls. newline \<notin> set l \<Longrightarrow> newline \<notin> set r \<Longrightarrow>
     split (concat (map frame ls) @ r) = ls @ [r]"
  by (induction ls) (auto simp: split_plain split_frame)

lemma receive_text:
  "receive buf d = (butlast (split (buf @ toString d)), last (split (buf @ toString d)))"
  by (simp add: receive_def split_nonempty Let_def)

lemma split_last_clean: "newline \<notin> set (last (split s))"
  using split_no_newline [of "last (split s)" s] split_nonempty [of s] by simp

lemma receive_buffer_clean: "newline \<notin> set (snd (receive buf d))"
  by (simp add: receive_text split_last_clean)

lemma receive_lines_clean: "l \<in> set (fst (receive buf d)) \<Longrightarrow> newline \<notin> set l"
  by (auto simp: receive_text dest: in_set_butlastD split_no_newline)

lemma receive_conserve:
  "concat (map frame (fst (receive buf d))) @ snd (receive buf d) = buf @ toString d"
  by (simp add: receive_text split_conserve)

lemma decode_chunks_text:
  "newline \<notin> set buf \<Longrightarrow>
   decode_chunks buf ds =
     (butlast (split (buf @ concat (map toString ds))), last (split (buf @ concat (map toString ds))))"
proof (induction ds arbitrary: buf)
  case Nil
  then show ?case by (simp add: split_plain)
next
  case (Cons d ds)
  let ?a = "buf @ toString d"
  let ?r = "concat (map toString ds)"
  have clean: "newline \<notin> set (last (split ?a))"
    by (rule split_last_clean)
  have sp: "split (buf @ toString d @ ?r) = butlast (split ?a) @ split (last (split ?a) @ ?r)"
    using split_append [of ?a ?r] by simp
  have ne: "split (last (split ?a) @ ?r) \<noteq> []"
    by (rule split_nonempty)
  have "decode_chunks buf (d # ds) =
          (butlast (split ?a) @ butlast (split (last (split ?a) @ ?r)),
           last (split (last (split ?a) @ ?r)))"
    by (simp add: receive_text Cons.IH [OF clean])
  also have "\<dots> = (butlast (split (buf @ toString d @ ?r)), last (split (buf @ toString d @ ?r)))"
    using ne by (simp add: sp butlast_append)
  finally show ?case by simp
qed

section \<open>The decoder under chunking\<close>

text \<open>
  C2: encoding each message as one line of UTF-8 JSON and decoding the concatenated
  bytes gives the messages back, however the bytes are cut into chunks, also inside a
  multi-byte sequence.

  The decoder decodes each chunk by itself (\<^verbatim>\<open>data.toString()\<close>) before it appends to
  the buffer. The response \<^verbatim>\<open>{"id":"1","result":"\<close>U+00E9\<^verbatim>\<open>"}\<close> is 25 bytes
  on the wire, the letter being bytes 21 and 22. Delivered whole it is decoded as it
  was sent; delivered as its first 21 bytes and then the rest, the line handed to
  \<^verbatim>\<open>JSON.parse\<close> is the text of another message, with two U+FFFD for the letter.
\<close>

theorem split_inside_multibyte_sequence:
  "JSON_stringify accented = Some accented_text
   \<and> decode_chunks [] [wire (frame accented_text)] = ([accented_text], [])
   \<and> decode_chunks [] [take 21 (wire (frame accented_text)), drop 21 (wire (frame accented_text))]
       = ([mangled_text], [])
   \<and> JSON_stringify mangled = Some mangled_text
   \<and> mangled_text \<noteq> accented_text"
  by code_simp

text \<open>
  C3: after each chunk the buffer holds exactly the trailing partial frame, and no
  byte is duplicated or dropped across chunk boundaries except the delimiter.

  For the decoded text this is \<open>receive_conserve\<close>, \<open>receive_buffer_clean\<close> and
  \<open>receive_lines_clean\<close> above. For the bytes it fails on the same input as C2: after
  the first 21 bytes, which end with the lead byte \<open>0xC3\<close>, the buffer ends with
  U+FFFD, whose bytes are \<open>0xEF 0xBF 0xBD\<close>: the lead byte is gone from the stream.
\<close>

theorem buffer_after_split_sequence:
  "take 21 (wire (frame accented_text)) = wire (take 20 accented_text) @ [195]
   \<and> receive [] (take 21 (wire (frame accented_text))) = ([], take 20 accented_text @ [replacement])
   \<and> wire (take 20 accented_text @ [replacement]) = wire (take 20 accented_text) @ [239, 191, 189]"
  by code_simp

section \<open>Lines that do not parse\<close>

lemma on_lines_Cons:
  "on_lines P this (l # ls) =
     (fst (on_lines P (fst (on_line P this l)) ls),
      snd (on_line P this l) @ snd (on_lines P (fst (on_line P this l)) ls))"
  by (simp add: Let_def split: prod.splits)

lemma on_lines_append:
  "on_lines P this (xs @ ys) =
     (fst (on_lines P (fst (on_lines P this xs)) ys),
      snd (on_lines P this xs) @ snd (on_lines P (fst (on_lines P this xs)) ys))"
  by (induction xs arbitrary: this) (simp_all add: on_lines_Cons del: on_lines.simps(2))

lemma on_line_keeps:
  "this_buffer (fst (on_line P this line)) = this_buffer this
   \<and> socket (fst (on_line P this line)) = socket this
   \<and> requestId (fst (on_line P this line)) = requestId this
   \<and> Destroy \<notin> set (snd (on_line P this line))"
  by (auto simp: on_line_def split: option.splits)

lemma on_lines_keeps:
  "this_buffer (fst (on_lines P this ls)) = this_buffer this
   \<and> socket (fst (on_lines P this ls)) = socket this
   \<and> requestId (fst (on_lines P this ls)) = requestId this
   \<and> Destroy \<notin> set (snd (on_lines P this ls))"
  by (induction ls arbitrary: this)
     (simp_all add: on_lines_Cons on_line_keeps del: on_lines.simps(2))

lemma run_lines_no_destroy: "Destroy \<notin> set (fst (run_lines P c ls))"
  by (induction ls) (auto split: option.splits)

lemma step_data_buffer: "buffer (fst (step P s (Data d))) = snd (receive (buffer s) d)"
  by (auto simp: suspend_def Let_def split: prod.splits option.splits)

lemma step_data_effects:
  "snd (step P s (Data d)) = fst (run_lines P (invoked s) (fst (receive (buffer s) d)))"
  by (auto simp: Let_def split: prod.splits)

lemma on_data_unfold:
  "on_data P this d =
     on_lines P (this\<lparr>this_buffer := snd (receive (this_buffer this) d)\<rparr>)
       (fst (receive (this_buffer this) d))"
  by (simp add: on_data_def Let_def split: prod.splits)

text \<open>
  C4: a complete line that is not blank and that \<^verbatim>\<open>JSON.parse\<close> rejects is logged and
  dropped, on either side. The listener goes on with the lines after it, as it would
  without it; the caller's state after it is the state before it, so the lines around
  it are handled as if it were not there; the buffer after the chunk is what framing
  left, whatever parsed; and nothing closes the socket. A blank line (nothing but white
  space) is passed over before \<^verbatim>\<open>JSON.parse\<close> is called: \<^verbatim>\<open>if (!line.trim()) continue;\<close>.
\<close>

theorem malformed_frame_dropped:
  assumes "P bad = None" and "trim bad \<noteq> []"
  shows "run_lines P c (bad # rest) =
           (ConsoleError parse_failed SyntaxError # fst (run_lines P c rest),
            snd (run_lines P c rest))
       \<and> on_lines P this (before @ bad # later) =
           (fst (on_lines P (fst (on_lines P this before)) later),
            snd (on_lines P this before) @ ConsoleError response_failed SyntaxError
              # snd (on_lines P (fst (on_lines P this before)) later))
       \<and> on_line P this bad = (this, [ConsoleError response_failed SyntaxError])
       \<and> buffer (fst (step P s (Data d))) = snd (receive (buffer s) d)
       \<and> this_buffer (fst (on_data P this d)) = snd (receive (this_buffer this) d)
       \<and> socket (fst (on_data P this d)) = socket this
       \<and> Destroy \<notin> set (snd (on_data P this d))
       \<and> Destroy \<notin> set (snd (step P s (Data d)))
       \<and> (trim skipped = [] \<longrightarrow>
            run_lines P c (skipped # rest) = run_lines P c rest
            \<and> on_line P this skipped = (this, []))"
proof -
  have server: "run_lines P c (bad # rest) =
           (ConsoleError parse_failed SyntaxError # fst (run_lines P c rest),
            snd (run_lines P c rest))"
    using assms by simp
  have line: "on_line P this' bad = (this', [ConsoleError response_failed SyntaxError])" for this'
    using assms by (simp add: on_line_def)
  have client: "on_lines P this (before @ bad # later) =
           (fst (on_lines P (fst (on_lines P this before)) later),
            snd (on_lines P this before) @ ConsoleError response_failed SyntaxError
              # snd (on_lines P (fst (on_lines P this before)) later))"
    by (simp add: on_lines_append [of P this before] on_lines_Cons line del: on_lines.simps(2))
  have skip: "trim skipped = [] \<longrightarrow>
            run_lines P c (skipped # rest) = run_lines P c rest
            \<and> on_line P this skipped = (this, [])"
    by (simp add: on_line_def)
  have rest: "buffer (fst (step P s (Data d))) = snd (receive (buffer s) d)
       \<and> this_buffer (fst (on_data P this d)) = snd (receive (this_buffer this) d)
       \<and> socket (fst (on_data P this d)) = socket this
       \<and> Destroy \<notin> set (snd (on_data P this d))
       \<and> Destroy \<notin> set (snd (step P s (Data d)))"
    by (simp add: step_data_buffer step_data_effects run_lines_no_destroy
        on_data_unfold on_lines_keeps del: step.simps on_lines.simps run_lines.simps)
  show ?thesis
    using server client line [of this] skip rest by blast
qed

text \<open>
  At a line of garbage between two responses, and after it a request; and at a line of
  one space.
\<close>

theorem malformed_frame_dropped_witness:
  "JSON_parse garbage = None \<and> trim garbage \<noteq> [] \<and> trim blank = []
   \<and> fst (run_lines JSON_parse 0 [garbage, text_of readFile_request]) =
       [ConsoleError parse_failed SyntaxError,
        Invoke 0 (Str (ascii ''readFile'')) (Obj [(ascii ''path'', Str (ascii ''a.txt''))])]
   \<and> on_lines JSON_parse two_pending
            [text_of readFile_response, garbage, text_of getActiveEditor_response] =
       (two_pending\<lparr>pendingRequests := []\<rparr>,
        [Resolve 7 (Str (ascii ''hello'')), ConsoleError response_failed SyntaxError,
         Resolve 8 Null])
   \<and> fst (run_lines JSON_parse 0 [blank, text_of readFile_request]) =
       [Invoke 0 (Str (ascii ''readFile'')) (Obj [(ascii ''path'', Str (ascii ''a.txt''))])]
   \<and> on_line JSON_parse two_pending blank = (two_pending, [])"
proof -
  have h1: "JSON_parse garbage = None" by code_simp
  have h2: "trim garbage \<noteq> []" by code_simp
  have h3: "trim blank = []" by code_simp
  note dropped = malformed_frame_dropped [where P = JSON_parse and bad = garbage and c = 0
      and rest = "[text_of readFile_request]" and this = two_pending
      and before = "[text_of readFile_response]"
      and later = "[text_of getActiveEditor_response]" and skipped = blank, OF h1 h2]
  have server: "fst (run_lines JSON_parse 0 [text_of readFile_request]) =
       [Invoke 0 (Str (ascii ''readFile'')) (Obj [(ascii ''path'', Str (ascii ''a.txt''))])]"
    by code_simp
  have first: "on_lines JSON_parse two_pending [text_of readFile_response] =
       (two_pending\<lparr>pendingRequests := [(ascii ''2'', 8)]\<rparr>, [Resolve 7 (Str (ascii ''hello''))])"
    by code_simp
  have last: "on_lines JSON_parse (two_pending\<lparr>pendingRequests := [(ascii ''2'', 8)]\<rparr>)
        [text_of getActiveEditor_response] =
       (two_pending\<lparr>pendingRequests := []\<rparr>, [Resolve 8 Null])"
    by code_simp
  from dropped have "run_lines JSON_parse 0 [garbage, text_of readFile_request] =
           (ConsoleError parse_failed SyntaxError
              # fst (run_lines JSON_parse 0 [text_of readFile_request]),
            snd (run_lines JSON_parse 0 [text_of readFile_request]))"
    by (rule conjunct1)
  then have a: "fst (run_lines JSON_parse 0 [garbage, text_of readFile_request]) =
       [ConsoleError parse_failed SyntaxError,
        Invoke 0 (Str (ascii ''readFile'')) (Obj [(ascii ''path'', Str (ascii ''a.txt''))])]"
    by (simp only: fst_conv server)
  from dropped have "on_lines JSON_parse two_pending
            ([text_of readFile_response] @ garbage # [text_of getActiveEditor_response]) =
           (fst (on_lines JSON_parse (fst (on_lines JSON_parse two_pending [text_of readFile_response]))
                   [text_of getActiveEditor_response]),
            snd (on_lines JSON_parse two_pending [text_of readFile_response])
              @ ConsoleError response_failed SyntaxError
              # snd (on_lines JSON_parse (fst (on_lines JSON_parse two_pending [text_of readFile_response]))
                   [text_of getActiveEditor_response]))"
    by (rule conjunct1 [OF conjunct2])
  then have b: "on_lines JSON_parse two_pending
            [text_of readFile_response, garbage, text_of getActiveEditor_response] =
          (two_pending\<lparr>pendingRequests := []\<rparr>,
           [Resolve 7 (Str (ascii ''hello'')), ConsoleError response_failed SyntaxError, Resolve 8 Null])"
    by (simp only: first last fst_conv snd_conv append.simps)
  from dropped h3 have skip: "run_lines JSON_parse 0 [blank, text_of readFile_request] =
        run_lines JSON_parse 0 [text_of readFile_request]
      \<and> on_line JSON_parse two_pending blank = (two_pending, [])"
    by blast
  then have c: "fst (run_lines JSON_parse 0 [blank, text_of readFile_request]) =
       [Invoke 0 (Str (ascii ''readFile'')) (Obj [(ascii ''path'', Str (ascii ''a.txt''))])]"
    by (simp only: server)
  show ?thesis
    using h1 h2 h3 a b c skip by (intro conjI) blast+
qed

text \<open>
  For every complete line that \<^verbatim>\<open>JSON.parse\<close> rejects the property does not hold. A line
  of one space is such a line, and reaches both loops (the chunk \<^verbatim>\<open>" \n"\<close> frames it);
  it is dropped, but nothing is logged.
\<close>

theorem blank_segment_not_logged:
  "JSON_parse blank = None
   \<and> receive [] (wire (frame blank)) = ([blank], [])
   \<and> run_lines JSON_parse 0 [blank] = ([], None)
   \<and> on_line JSON_parse two_pending blank = (two_pending, [])"
  by code_simp

section \<open>Responses at the caller\<close>

text \<open>
  C5: when the caller decodes a response (a line that is not blank and that
  \<^verbatim>\<open>JSON.parse\<close> turns into a value of the interface \<^verbatim>\<open>IPCResponse\<close>) whose id has an
  entry in the table, the entry is removed and its continuation is rejected with an
  \<^verbatim>\<open>Error\<close> of the message of the response's \<^verbatim>\<open>error\<close>, if it has one, and resolved with
  its \<^verbatim>\<open>result\<close> otherwise; a response whose id has no entry changes nothing and has
  no effect.
\<close>

theorem response_settles_pending:
  assumes "trim line \<noteq> []" and "P line = Some (response_value r)"
  shows "(map_of (pendingRequests this) (id' r) = Some k \<and> error r = Some e
          \<longrightarrow> on_line P this line =
                (this\<lparr>pendingRequests := AList.delete (id' r) (pendingRequests this)\<rparr>,
                 [Reject k (Error (message e))]))
       \<and> (map_of (pendingRequests this) (id' r) = Some k \<and> error r = None
          \<longrightarrow> on_line P this line =
                (this\<lparr>pendingRequests := AList.delete (id' r) (pendingRequests this)\<rparr>,
                 [Resolve k (case result r of None \<Rightarrow> Undefined | Some v \<Rightarrow> v)]))
       \<and> (map_of (pendingRequests this) (id' r) = None \<longrightarrow> on_line P this line = (this, []))
       \<and> map_of (AList.delete (id' r) (pendingRequests this)) =
           (map_of (pendingRequests this))(id' r := None)"
  using assms
  by (auto simp: on_line_def new_Error_def delete_conv' response_value_def error_value_def
        optional_def ascii_def split: option.splits)

text \<open>
  At the three responses of a caller with the requests 1 and 2 in flight: an error for
  2, a result for 1, and a result for 9, which nobody waits for.
\<close>

theorem response_settles_pending_witness:
  "trim (text_of unknownMethod_response) \<noteq> []
   \<and> JSON_parse (text_of unknownMethod_response) =
       Some (response_value \<lparr>id' = ascii ''2'', result = None,
               error = Some \<lparr>message = ascii ''Unknown method: unknownMethod'', code = None\<rparr>\<rparr>)
   \<and> on_line JSON_parse two_pending (text_of unknownMethod_response) =
       (two_pending\<lparr>pendingRequests := [(ascii ''1'', 7)]\<rparr>,
        [Reject 8 (Error (ascii ''Unknown method: unknownMethod''))])
   \<and> trim (text_of readFile_response) \<noteq> []
   \<and> JSON_parse (text_of readFile_response) =
       Some (response_value \<lparr>id' = ascii ''1'', result = Some (Str (ascii ''hello'')),
               error = None\<rparr>)
   \<and> on_line JSON_parse two_pending (text_of readFile_response) =
       (two_pending\<lparr>pendingRequests := [(ascii ''2'', 8)]\<rparr>, [Resolve 7 (Str (ascii ''hello''))])
   \<and> trim (text_of stray_response) \<noteq> []
   \<and> JSON_parse (text_of stray_response) =
       Some (response_value \<lparr>id' = ascii ''9'', result = Some Null, error = None\<rparr>)
   \<and> on_line JSON_parse two_pending (text_of stray_response) = (two_pending, [])"
proof -
  let ?e = "\<lparr>message = ascii ''Unknown method: unknownMethod'', code = None\<rparr>"
  let ?r = "\<lparr>id' = ascii ''2'', result = None, error = Some ?e\<rparr>"
  let ?q = "\<lparr>id' = ascii ''1'', result = Some (Str (ascii ''hello'')), error = None\<rparr>"
  let ?u = "\<lparr>id' = ascii ''9'', result = Some Null, error = None\<rparr>"
  have h1: "trim (text_of unknownMethod_response) \<noteq> []" by code_simp
  have h2: "JSON_parse (text_of unknownMethod_response) = Some (response_value ?r)"
    by code_simp
  have h3: "map_of (pendingRequests two_pending) (id' ?r) = Some 8" by code_simp
  have h4: "AList.delete (id' ?r) (pendingRequests two_pending) = [(ascii ''1'', 7)]"
    by code_simp
  from response_settles_pending [where P = JSON_parse and this = two_pending and r = ?r
      and k = 8 and e = ?e, OF h1 h2]
  have "on_line JSON_parse two_pending (text_of unknownMethod_response) =
       (two_pending\<lparr>pendingRequests := AList.delete (id' ?r) (pendingRequests two_pending)\<rparr>,
        [Reject 8 (Error (message ?e))])"
    using h3 by simp
  then have a: "on_line JSON_parse two_pending (text_of unknownMethod_response) =
       (two_pending\<lparr>pendingRequests := [(ascii ''1'', 7)]\<rparr>,
        [Reject 8 (Error (ascii ''Unknown method: unknownMethod''))])"
    by (simp only: h4) simp
  have g1: "trim (text_of readFile_response) \<noteq> []" by code_simp
  have g2: "JSON_parse (text_of readFile_response) = Some (response_value ?q)"
    by code_simp
  have g3: "map_of (pendingRequests two_pending) (id' ?q) = Some 7" by code_simp
  have g4: "AList.delete (id' ?q) (pendingRequests two_pending) = [(ascii ''2'', 8)]"
    by code_simp
  from response_settles_pending [where P = JSON_parse and this = two_pending and r = ?q
      and k = 7, OF g1 g2]
  have "on_line JSON_parse two_pending (text_of readFile_response) =
       (two_pending\<lparr>pendingRequests := AList.delete (id' ?q) (pendingRequests two_pending)\<rparr>,
        [Resolve 7 (case result ?q of None \<Rightarrow> Undefined | Some v \<Rightarrow> v)])"
    using g3 by simp
  then have b: "on_line JSON_parse two_pending (text_of readFile_response) =
       (two_pending\<lparr>pendingRequests := [(ascii ''2'', 8)]\<rparr>, [Resolve 7 (Str (ascii ''hello''))])"
    by (simp only: g4) simp
  have f1: "trim (text_of stray_response) \<noteq> []" by code_simp
  have f2: "JSON_parse (text_of stray_response) = Some (response_value ?u)"
    by code_simp
  have f3: "map_of (pendingRequests two_pending) (id' ?u) = None" by code_simp
  from response_settles_pending [where P = JSON_parse and this = two_pending and r = ?u,
      OF f1 f2]
  have c: "on_line JSON_parse two_pending (text_of stray_response) = (two_pending, [])"
    using f3 by simp
  show ?thesis using h1 h2 a g1 g2 b f1 f2 c by (intro conjI)
qed

section \<open>Requests without a socket, and after the socket has closed\<close>

text \<open>
  C10: \<^verbatim>\<open>request\<close> on a client that holds no socket (never connected, or disconnected)
  returns a promise that is already rejected with an \<^verbatim>\<open>Error\<close> of message
  \<^verbatim>\<open>Not connected\<close>. The check is the first statement of the body, so no id has been
  assigned, no entry stored and nothing written: the client is as it was.
\<close>

theorem request_without_socket:
  "(socket this = None \<longrightarrow>
      request_call this k method params = (this, ReturnedRejected not_connected, []))
   \<and> request_call (new_IPCClient default_path path) k method params =
       (new_IPCClient default_path path, ReturnedRejected not_connected, [])
   \<and> request_call (fst (disconnect this)) k method params =
       (fst (disconnect this), ReturnedRejected not_connected, [])
   \<and> not_connected = Error (ascii ''Not connected'')"
  by (simp add: request_call_def new_IPCClient_def disconnect_def not_connected_def)

theorem request_without_socket_witness:
  "socket (one_pending\<lparr>socket := None\<rparr>) = None
   \<and> request_call (one_pending\<lparr>socket := None\<rparr>) 9 (ascii ''readFile'') (Obj []) =
       (one_pending\<lparr>socket := None\<rparr>, ReturnedRejected (Error (ascii ''Not connected'')), [])"
proof -
  have h: "socket (one_pending\<lparr>socket := None\<rparr>) = None" by simp
  from request_without_socket [of "one_pending\<lparr>socket := None\<rparr>" 9 "ascii ''readFile''" "Obj []"]
  have "request_call (one_pending\<lparr>socket := None\<rparr>) 9 (ascii ''readFile'') (Obj []) =
       (one_pending\<lparr>socket := None\<rparr>, ReturnedRejected not_connected, [])"
    using h by blast
  then show ?thesis using h by (simp add: not_connected_def)
qed

text \<open>
  The call itself does not throw. The method is \<^verbatim>\<open>async\<close>: the call returns, and what
  it returns is the rejected promise.
\<close>

theorem request_without_socket_returns:
  "request_call (new_IPCClient (ascii ''/tmp/vscode-api-mcp.sock'') []) 7 (ascii ''readFile'')
      (Obj [(ascii ''path'', Str (ascii ''a.txt''))]) =
     (new_IPCClient (ascii ''/tmp/vscode-api-mcp.sock'') [],
      ReturnedRejected (Error (ascii ''Not connected'')), [])
   \<and> fst (snd (request_call (new_IPCClient (ascii ''/tmp/vscode-api-mcp.sock'') []) 7
        (ascii ''readFile'') (Obj [(ascii ''path'', Str (ascii ''a.txt''))]))) \<noteq>
       Threw (Error (ascii ''Not connected''))"
  by code_simp

text \<open>
  The \<^verbatim>\<open>close\<close> listener rejects every continuation in the table, in the order of the
  table, and leaves the table empty.
\<close>

lemma reject_all_Cons:
  "reject_all ((i, k) # entries) table =
     (fst (reject_all entries (AList.delete i table)),
      Reject k connection_closed # snd (reject_all entries (AList.delete i table)))"
  by (simp split: prod.splits)

lemma reject_all_effects:
  "snd (reject_all entries table) = map (\<lambda>e. Reject (snd e) connection_closed) entries"
proof (induction entries arbitrary: table)
  case Nil
  then show ?case by simp
next
  case (Cons a entries)
  then show ?case by (cases a) (simp add: reject_all_Cons del: reject_all.simps)
qed

lemma reject_all_table:
  "fst (reject_all entries table) = filter (\<lambda>e. fst e \<notin> fst ` set entries) table"
proof (induction entries arbitrary: table)
  case Nil
  then show ?case by simp
next
  case (Cons a entries)
  obtain i k where a: "a = (i, k)" by (cases a)
  have "fst (reject_all (a # entries) table) = fst (reject_all entries (AList.delete i table))"
    by (simp add: a reject_all_Cons del: reject_all.simps)
  also have "\<dots> = filter (\<lambda>e. fst e \<notin> fst ` set entries) (AList.delete i table)"
    by (rule Cons.IH)
  also have "\<dots> = filter (\<lambda>e. fst e \<notin> fst ` set (a # entries)) table"
    by (induction table) (auto simp: a)
  finally show ?case .
qed

lemma on_close_rejects_all:
  "on_close this =
     (this\<lparr>pendingRequests := []\<rparr>,
      map (\<lambda>e. Reject (snd e) connection_closed) (pendingRequests this))"
proof -
  have "filter (\<lambda>e. fst e \<notin> fst ` set (pendingRequests this)) (pendingRequests this) = []"
    by (auto simp: filter_empty_conv)
  then show ?thesis
    by (simp add: on_close_def case_prod_beta reject_all_effects reject_all_table)
qed

lemma on_error_keeps: "on_error this = (this, [RejectConnect])"
  by (simp add: on_error_def)

lemma increment_bounded: "n \<le> 9007199254740992 \<Longrightarrow> increment n \<le> 9007199254740992"
  by (simp add: increment_def)

text \<open>
  C6: every id put into the table is taken out once, by its response or when the
  connection closes, and then its continuation is rejected with \<^verbatim>\<open>Connection closed\<close>,
  so that none stays unsettled for ever.

  The \<^verbatim>\<open>close\<close> listener does its part (\<open>on_close_rejects_all\<close>). But it leaves
  \<^verbatim>\<open>this.socket\<close> set, where \<^verbatim>\<open>disconnect()\<close> sets it to \<^verbatim>\<open>null\<close>, so a \<^verbatim>\<open>request\<close> made
  after the socket has closed passes the check for a socket: it takes the id
  \<^verbatim>\<open>1\<close>, stores its continuation and writes to the closed socket. No response can
  arrive and \<^verbatim>\<open>close\<close> has been and gone; \<^verbatim>\<open>disconnect()\<close> leaves the entry too.
\<close>

theorem request_after_close_stays_pending:
  "on_close (fst (connect (new_IPCClient (ascii ''/tmp/vscode-api-mcp.sock'') []))) =
     (fst (connect (new_IPCClient (ascii ''/tmp/vscode-api-mcp.sock'') [])), [])
   \<and> request_call (fst (on_close (fst (connect (new_IPCClient (ascii ''/tmp/vscode-api-mcp.sock'') []))))) 7
        (ascii ''readFile'') (Obj [(ascii ''path'', Str (ascii ''a.txt''))]) =
     (one_pending, ReturnedPending 7, [SocketWrite (frame (text_of readFile_request))])
   \<and> disconnect one_pending = (one_pending\<lparr>socket := None\<rparr>, [Destroy])
   \<and> pendingRequests (one_pending\<lparr>socket := None\<rparr>) = [(ascii ''1'', 7)]"
  by code_simp

section \<open>Requests at the listener\<close>

lemma step_settled_effects:
  "find (\<lambda>t. awaiting t = c) (tasks s) = Some t \<Longrightarrow>
   snd (step P s (Settled c out)) =
     respond (request t) out # fst (run_lines P (invoked s) (remaining t))"
  by (simp add: case_prod_beta)

lemma step_settled_keeps:
  "find (\<lambda>t. awaiting t = c) (tasks s) = Some t \<Longrightarrow> ta \<in> set (tasks s) \<Longrightarrow>
   awaiting ta \<noteq> c \<Longrightarrow> ta \<in> set (tasks (fst (step P s (Settled c out))))"
  by (auto simp: case_prod_beta suspend_def split: option.splits)

lemma step_settled_unknown:
  "find (\<lambda>t. awaiting t = c) (tasks s) = None \<Longrightarrow> step P s (Settled c out) = (s, [])"
  by simp

lemma step_data_first:
  assumes "fst (receive (buffer s) d) = line # rest" and "trim line \<noteq> []"
    and "P line = Some req" and "get_prop req (ascii ''method'') = Some m"
    and "get_prop req (ascii ''params'') = Some p"
  shows "step P s (Data d) =
     (s\<lparr>buffer := snd (receive (buffer s) d),
        tasks := tasks s @ [\<lparr>awaiting = invoked s, request = req, remaining = rest\<rparr>],
        invoked := Suc (invoked s)\<rparr>,
      [Invoke (invoked s) m p])"
  using assms by (simp add: case_prod_beta suspend_def)

text \<open>
  When the handler's promise settles and \<^verbatim>\<open>JSON.stringify\<close> accepts the response, the
  response is written, with the id of the request.
\<close>

lemma respond_writes:
  "get_prop req (ascii ''id'') = Some rid \<Longrightarrow>
   JSON_stringify (case out of Resolved r \<Rightarrow> success_response rid r
                    | Rejected e \<Rightarrow> error_response rid (error_message e)) = Some s \<Longrightarrow>
   respond req out = SocketWrite (frame s)"
  by (simp add: respond_def)

lemma respond_throws:
  "get_prop req (ascii ''id'') = Some rid \<Longrightarrow>
   JSON_stringify (case out of Resolved r \<Rightarrow> success_response rid r
                    | Rejected e \<Rightarrow> error_response rid (error_message e)) = None \<Longrightarrow>
   respond req out = ConsoleError parse_failed TypeError"
  by (simp add: respond_def)

text \<open>
  C1: for every well-formed request the listener decodes, it writes exactly one
  response with the request's id, \<^verbatim>\<open>{id, result}\<close> when the handler resolves and
  \<^verbatim>\<open>{id, error: {message}}\<close> when it rejects; never none.

  \<^verbatim>\<open>JSON.stringify(response)\<close> stands inside the \<^verbatim>\<open>try\<close> whose \<^verbatim>\<open>catch\<close> is meant for
  \<^verbatim>\<open>JSON.parse\<close> and only logs. A handler may resolve with a value that
  \<^verbatim>\<open>JSON.stringify\<close> refuses (\<^verbatim>\<open>executeCommand\<close> passes on whatever the command returns);
  then the request gets no response at all. With the result \<^verbatim>\<open>10n\<close> nothing is written;
  with the result \<^verbatim>\<open>10\<close> the response is.
\<close>

theorem unserializable_result_unanswered:
  "run JSON_parse accepted
     [Data (wire (frame (text_of executeCommand_request))), Settled 0 (Resolved (BigInt 10))] =
     (accepted\<lparr>invoked := 1\<rparr>,
      [Invoke 0 (Str (ascii ''executeCommand'')) (Obj [(ascii ''command'', Str (ascii ''ext.count''))]),
       ConsoleError parse_failed TypeError])
   \<and> run JSON_parse accepted
     [Data (wire (frame (text_of executeCommand_request))), Settled 0 (Resolved (Num 10))] =
     (accepted\<lparr>invoked := 1\<rparr>,
      [Invoke 0 (Str (ascii ''executeCommand'')) (Obj [(ascii ''command'', Str (ascii ''ext.count''))]),
       SocketWrite (frame (ascii ''{\"id\":\"3\",\"result\":10}''))])"
  by code_simp

text \<open>
  The first request of a chunk is dispatched when the chunk arrives, whatever is in
  flight; the handler that settles is answered, whichever it is, and the others stay
  in flight; and the caller settles the continuation stored under the id of the
  response and leaves the others.
\<close>

lemma completion_order_free:
  "buffer (fst (step P s (Data d))) = snd (receive (buffer s) d)
   \<and> (fst (receive (buffer s) d) = line # rest \<and> trim line \<noteq> [] \<and> P line = Some req
        \<and> get_prop req (ascii ''method'') = Some m \<and> get_prop req (ascii ''params'') = Some p
      \<longrightarrow> step P s (Data d) =
           (s\<lparr>buffer := snd (receive (buffer s) d),
              tasks := tasks s @ [\<lparr>awaiting = invoked s, request = req, remaining = rest\<rparr>],
              invoked := Suc (invoked s)\<rparr>,
            [Invoke (invoked s) m p]))
   \<and> (find (\<lambda>t. awaiting t = b) (tasks s) = Some tb \<and> ta \<in> set (tasks s) \<and> awaiting ta \<noteq> b
      \<longrightarrow> snd (step P s (Settled b out)) =
             respond (request tb) out # fst (run_lines P (invoked s) (remaining tb))
          \<and> ta \<in> set (tasks (fst (step P s (Settled b out)))))
   \<and> (trim l \<noteq> [] \<and> P l = Some response
        \<and> get_prop response (ascii ''id'') = Some (Str ib)
        \<and> get_prop response (ascii ''error'') = Some Undefined
        \<and> get_prop response (ascii ''result'') = Some r
        \<and> map_of (pendingRequests this) ib = Some kb
        \<and> map_of (pendingRequests this) ia = Some ka \<and> ia \<noteq> ib
      \<longrightarrow> snd (on_line P this l) = [Resolve kb r]
          \<and> map_of (pendingRequests (fst (on_line P this l))) ia = Some ka
          \<and> map_of (pendingRequests (fst (on_line P this l))) ib = None)"
proof (intro conjI impI)
  show "buffer (fst (step P s (Data d))) = snd (receive (buffer s) d)"
    by (rule step_data_buffer)
next
  assume "fst (receive (buffer s) d) = line # rest \<and> trim line \<noteq> [] \<and> P line = Some req
        \<and> get_prop req (ascii ''method'') = Some m \<and> get_prop req (ascii ''params'') = Some p"
  then show "step P s (Data d) =
           (s\<lparr>buffer := snd (receive (buffer s) d),
              tasks := tasks s @ [\<lparr>awaiting = invoked s, request = req, remaining = rest\<rparr>],
              invoked := Suc (invoked s)\<rparr>,
            [Invoke (invoked s) m p])"
    by (intro step_data_first) blast+
next
  assume a: "find (\<lambda>t. awaiting t = b) (tasks s) = Some tb \<and> ta \<in> set (tasks s) \<and> awaiting ta \<noteq> b"
  then show "snd (step P s (Settled b out)) =
             respond (request tb) out # fst (run_lines P (invoked s) (remaining tb))"
    by (simp add: step_settled_effects del: step.simps)
  from a show "ta \<in> set (tasks (fst (step P s (Settled b out))))"
    by (simp add: step_settled_keeps del: step.simps)
next
  assume a: "trim l \<noteq> [] \<and> P l = Some response
        \<and> get_prop response (ascii ''id'') = Some (Str ib)
        \<and> get_prop response (ascii ''error'') = Some Undefined
        \<and> get_prop response (ascii ''result'') = Some r
        \<and> map_of (pendingRequests this) ib = Some kb
        \<and> map_of (pendingRequests this) ia = Some ka \<and> ia \<noteq> ib"
  then have line: "on_line P this l =
      (this\<lparr>pendingRequests := AList.delete ib (pendingRequests this)\<rparr>, [Resolve kb r])"
    by (simp add: on_line_def)
  show "snd (on_line P this l) = [Resolve kb r]" by (simp add: line)
  from a show "map_of (pendingRequests (fst (on_line P this l))) ia = Some ka"
    by (simp add: line delete_conv)
  show "map_of (pendingRequests (fst (on_line P this l))) ib = None"
    by (simp add: line delete_conv)
qed

text \<open>
  C7: the latency of one handler never holds back the decoding or the dispatch of
  another request; if B's handler completes before A's, B's response is written first
  and settles B's continuation.

  The callback awaits each handler inside its loop over the lines of the chunk, so
  the requests of one chunk are dispatched one after the other, each when the one
  before it has been answered; requests of different chunks overlap. With the requests
  1 (\<^verbatim>\<open>readFile\<close>) and 2 (\<^verbatim>\<open>getActiveEditor\<close>) in one chunk, only 1 is dispatched; a chunk
  that comes later has its request dispatched while 2 still waits; 2 is dispatched when
  the handler of 1 settles. Sent in two chunks, both are dispatched at once, and 2 is
  answered first when its handler settles first.
\<close>

theorem same_chunk_requests_wait:
  "snd (run JSON_parse accepted
     [Data (wire (frame (text_of readFile_request) @ frame (text_of getActiveEditor_request)))]) =
     [Invoke 0 (Str (ascii ''readFile'')) (Obj [(ascii ''path'', Str (ascii ''a.txt''))])]
   \<and> snd (run JSON_parse accepted
     [Data (wire (frame (text_of readFile_request) @ frame (text_of getActiveEditor_request))),
      Data (wire (frame (text_of executeCommand_request)))]) =
     [Invoke 0 (Str (ascii ''readFile'')) (Obj [(ascii ''path'', Str (ascii ''a.txt''))]),
      Invoke 1 (Str (ascii ''executeCommand'')) (Obj [(ascii ''command'', Str (ascii ''ext.count''))])]
   \<and> snd (run JSON_parse accepted
     [Data (wire (frame (text_of readFile_request) @ frame (text_of getActiveEditor_request))),
      Settled 0 (Resolved (Str (ascii ''hello'')))]) =
     [Invoke 0 (Str (ascii ''readFile'')) (Obj [(ascii ''path'', Str (ascii ''a.txt''))]),
      SocketWrite (frame (text_of readFile_response)),
      Invoke 1 (Str (ascii ''getActiveEditor'')) (Obj [])]
   \<and> snd (run JSON_parse accepted
     [Data (wire (frame (text_of readFile_request))),
      Data (wire (frame (text_of getActiveEditor_request))),
      Settled 1 (Resolved Null), Settled 0 (Resolved (Str (ascii ''hello'')))]) =
     [Invoke 0 (Str (ascii ''readFile'')) (Obj [(ascii ''path'', Str (ascii ''a.txt''))]),
      Invoke 1 (Str (ascii ''getActiveEditor'')) (Obj []),
      SocketWrite (frame (text_of getActiveEditor_response)),
      SocketWrite (frame (text_of readFile_response))]"
  by code_simp

section \<open>Unknown methods\<close>

lemma handler_rejects_unknown:
  "m \<notin> set catalog \<Longrightarrow>
   snd (handleVSCodeRequest cfg vscode ext (Str m) params) =
     Rejected (ErrorObject (unknown_method m))"
  by (simp add: handleVSCodeRequest_def)

lemma error_response_serializes:
  "JSON_stringify (error_response (Str i) msg) =
     Some ([123] @ quote (ascii ''id'') @ [58] @ quote i @ [44] @ quote (ascii ''error'') @ [58]
             @ [123] @ quote (ascii ''message'') @ [58] @ quote msg @ [125] @ [125])"
  by (simp add: JSON_stringify_def error_response_def join_def)

lemma caller_rejects_with_message:
  assumes "trim line \<noteq> []" and "P line = Some (error_response (Str i) msg)"
    and "map_of (pendingRequests this) i = Some k"
  shows "on_line P this line =
     (this\<lparr>pendingRequests := AList.delete i (pendingRequests this)\<rparr>, [Reject k (Error msg)])"
  using assms by (simp add: on_line_def error_response_def new_Error_def ascii_def)

text \<open>
  C8: for every method name \<open>m\<close> that is not in the catalog the handler rejects with
  \<^verbatim>\<open>Unknown method: \<close>\<open>m\<close>, the listener, which looks at no method name, answers
  \<^verbatim>\<open>{id, error: {message}}\<close> with that message, and the caller's promise is rejected with
  exactly that message.

  The handler and the listener do so (\<open>handler_rejects_unknown\<close>,
  \<open>error_response_serializes\<close>), and so does the caller with the response line it is
  handed (\<open>caller_rejects_with_message\<close>). But the line it is handed is not always the
  line that was written. For the method name \<open>U+00E9\<close> the response is 52 bytes, the
  letter being bytes 47 and 48. Delivered whole, the promise is rejected with the
  message; delivered as 47 bytes and then the rest, it is rejected with
  \<^verbatim>\<open>Unknown method: \<close> and two U+FFFD.
\<close>

theorem unknown_method_message_mangled:
  "snd (handleVSCodeRequest settings idle_editor activated (Str [233]) (Obj [])) =
     Rejected (ErrorObject (unknown_method [233]))
   \<and> snd (run JSON_parse accepted
       [Data (wire (frame (text_of accented_request))),
        Settled 0 (Rejected (ErrorObject (unknown_method [233])))]) =
     [Invoke 0 (Str [233]) (Obj []), SocketWrite (frame (text_of accented_unknown))]
   \<and> snd (on_data JSON_parse two_pending (wire (frame (text_of accented_unknown)))) =
     [Reject 8 (Error (unknown_method [233]))]
   \<and> snd (on_data JSON_parse two_pending (take 47 (wire (frame (text_of accented_unknown))))) = []
   \<and> snd (on_data JSON_parse
        (fst (on_data JSON_parse two_pending (take 47 (wire (frame (text_of accented_unknown))))))
        (drop 47 (wire (frame (text_of accented_unknown))))) =
     [Reject 8 (Error (unknown_method [replacement, replacement]))]"
  by code_simp

section \<open>Starting and stopping the servers\<close>

lemma start_when_held:
  "(ipcServer ext \<noteq> None \<longrightarrow>
      startIPCServer env cfg ext = (log cfg (ascii ''IPC server already running'') Info ext, Inr (), []))
   \<and> (httpMcpServer ext \<noteq> None \<longrightarrow>
      startHttpServer env cfg ext =
        (log cfg (ascii ''HTTP MCP server already running'') Info ext, Inr (), []))"
  by (simp add: startIPCServer_def startHttpServer_def)

lemma log_keeps_servers:
  "ipcServer (log cfg msg level ext) = ipcServer ext
   \<and> httpMcpServer (log cfg msg level ext) = httpMcpServer ext"
  by (simp add: log_def)

lemma stop_when_not_held:
  "(ipcServer ext = None \<longrightarrow> stopIPCServer cfg ext = (ext, []))
   \<and> (httpMcpServer ext = None \<longrightarrow> stopHttpServer cfg ext = (ext, []))"
  by (simp add: stopIPCServer_def stopHttpServer_def)

lemma running_is_held:
  "(ipc_running ext \<longrightarrow> ipcServer ext \<noteq> None) \<and> (http_running ext \<longrightarrow> httpMcpServer ext \<noteq> None)"
  by (auto simp: ipc_running_def http_running_def split: option.splits)

text \<open>
  C9: starting a server that is running creates no second server and does not throw;
  stopping a server that is not running does nothing and leaves all state as it was.

  Both functions test the module's variable, and a running server is held in it
  (\<open>running_is_held\<close>, \<open>start_when_held\<close>, \<open>stop_when_not_held\<close>). But the variable
  is assigned before \<^verbatim>\<open>start()\<close> is awaited and stays set when \<^verbatim>\<open>start()\<close> rejects. With
  port 6010 taken, \<^verbatim>\<open>startHttpServer\<close> throws and leaves a server object that does not
  listen; \<^verbatim>\<open>stopHttpServer\<close> then closes it, clears the variable and logs that the
  server has stopped, and until then \<^verbatim>\<open>startHttpServer\<close> only logs that the server is
  already running.
\<close>

theorem stop_after_failed_start:
  "startHttpServer port_taken settings activated =
     (activated\<lparr>httpMcpServer :=
         Some \<lparr>http_server = Some \<lparr>listening = False\<rparr>, transport = True, port = 6010\<rparr>\<rparr>,
      Inl address_in_use, [NewTransport, HttpCreateServer, McpConnect, HttpListen 6010])
   \<and> \<not> http_running (fst (startHttpServer port_taken settings activated))
   \<and> stopHttpServer settings (fst (startHttpServer port_taken settings activated)) =
     (activated\<lparr>outputChannel := [ascii ''[INFO] HTTP MCP server stopped'']\<rparr>, [HttpClose])
   \<and> startHttpServer port_taken settings (fst (startHttpServer port_taken settings activated)) =
     ((fst (startHttpServer port_taken settings activated))
        \<lparr>outputChannel := [ascii ''[INFO] HTTP MCP server already running'']\<rparr>, Inr (), [])"
  by code_simp

end
